theory Spec2Isabelle
  imports Complex_Main "HOL-Library.Word"
begin

section \<open>Audio conversion service (api/src/services/audio.py)\<close>

text \<open>
  The module has two classes. \<open>AudioNormalizer\<close> holds the trim and padding
  parameters of one stream and offers \<open>find_first_last_non_silent\<close> and
  \<open>normalize\<close>. \<open>AudioService.convert_audio\<close> normalizes a chunk (when
  streaming) and hands it to an encoder chosen by the output format.

  Conventions of the embedding:
  \<^item> a Python exception is a value \<open>PyExc type message\<close>; a function that may
    raise returns \<open>pyexc + 'a\<close>, \<open>Inl\<close> being the raise;
  \<^item> an int16 sample is a \<open>16 word\<close>, read with \<open>sint\<close>;
  \<^item> a float32 sample is the rational number it denotes, and float division and
    multiplication are exact (rounding is not modelled; NaN and infinities are
    not inputs of the model);
  \<^item> the float64 silence threshold is the real number it approximates;
  \<^item> the logger calls have no effect on the result and are left out;
  \<^item> the external writers (\<open>soundfile.write\<close>, \<open>scipy.io.wavfile.write\<close>) and
    the configuration object \<open>settings\<close> are parameters of the model.
\<close>

subsection \<open>Python values\<close>

type_synonym int16 = "16 word"
type_synonym byte = "8 word"

datatype pyexc = PyExc (exc_type: string) (exc_msg: string)

definition ValueError :: "string \<Rightarrow> pyexc" where
  "ValueError m = PyExc ''ValueError'' m"

text \<open>A numpy array of samples: the two dtypes the service is fed with.\<close>

datatype ndarray = Int16Array "int16 list" | Float32Array "rat list"

fun len_ndarray :: "ndarray \<Rightarrow> nat" where
  "len_ndarray (Int16Array xs) = length xs"
| "len_ndarray (Float32Array xs) = length xs"

text \<open>\<open>arr.astype(np.float32)\<close>: every int16 value is a float32 value.\<close>

fun astype_float32 :: "ndarray \<Rightarrow> rat list" where
  "astype_float32 (Int16Array xs) = map (\<lambda>w. of_int (sint w)) xs"
| "astype_float32 (Float32Array xs) = xs"

text \<open>Python's \<open>int(x)\<close> and the C cast behind \<open>astype(np.int16)\<close> truncate
  towards zero; the cast keeps the low 16 bits.\<close>

definition trunc :: "rat \<Rightarrow> int" where
  "trunc r = (if 0 \<le> r then \<lfloor>r\<rfloor> else \<lceil>r\<rceil>)"

definition astype_int16 :: "rat \<Rightarrow> int16" where
  "astype_int16 r = word_of_int (trunc r)"

text \<open>\<open>np.max\<close> raises on a zero-size array.\<close>

fun np_max :: "rat list \<Rightarrow> pyexc + rat" where
  "np_max [] = Inl (ValueError
     ''zero-size array to reduction operation maximum which has no identity'')"
| "np_max (x # xs) = Inr (foldl max x xs)"

text \<open>The slice \<open>xs[start:stop]\<close> for integer bounds: a negative bound counts
  from the end, and both are clamped to the sequence.\<close>

definition slice_index :: "int \<Rightarrow> int \<Rightarrow> int" where
  "slice_index n i = (if i < 0 then max (i + n) 0 else min i n)"

definition py_slice :: "'a list \<Rightarrow> int \<Rightarrow> int \<Rightarrow> 'a list" where
  "py_slice xs start stop =
     (let n = int (length xs); a = slice_index n start; b = slice_index n stop
      in take (nat (b - a)) (drop (nat a) xs))"

subsection \<open>AudioNormalizer\<close>

text \<open>The two configuration values \<open>__init__\<close> reads from \<open>settings\<close>.\<close>

record Settings =
  gap_trim_ms :: int
  dynamic_gap_trim_padding_ms :: int

record AudioNormalizer =
  int16_max :: int
  chunk_trim_ms :: int
  sample_rate :: int
  samples_to_trim :: int
  samples_to_pad_start :: int
  samples_to_pad_end :: int

definition AudioNormalizer_init :: "Settings \<Rightarrow> AudioNormalizer" where
  "AudioNormalizer_init settings =
     (let rate = 24000;
          pad_start = trunc (of_int (50 * rate) / 1000)
      in \<lparr> int16_max = 32767,
           chunk_trim_ms = gap_trim_ms settings,
           sample_rate = rate,
           samples_to_trim = trunc (of_int (gap_trim_ms settings * rate) / 1000),
           samples_to_pad_start = pad_start,
           samples_to_pad_end =
             max (trunc (of_int (dynamic_gap_trim_padding_ms settings * rate) / 1000)
                    - pad_start) 0 \<rparr>)"

text \<open>\<open>amplitude_threshold = self.int16_max * (10 ** (silence_threshold_db / 20))\<close>\<close>

definition amplitude_threshold :: "AudioNormalizer \<Rightarrow> int \<Rightarrow> real" where
  "amplitude_threshold self silence_threshold_db =
     of_int (int16_max self) * (10 powr (of_int silence_threshold_db / 20))"

text \<open>The forward loop \<open>for X in range(0, len(audio_data))\<close>; the third argument
  is the index of the head of the list.\<close>

fun scan_forward :: "real \<Rightarrow> int16 list \<Rightarrow> nat \<Rightarrow> nat option" where
  "scan_forward thr [] X = None"
| "scan_forward thr (a # as) X =
     (if thr < of_int (sint a) then Some X else scan_forward thr as (Suc X))"

text \<open>The backward loop \<open>for X in range(len(audio_data) - 1, -1, -1)\<close>; the third
  argument counts the indices still to visit, so the next index is one below.\<close>

fun scan_backward :: "real \<Rightarrow> int16 list \<Rightarrow> nat \<Rightarrow> nat option" where
  "scan_backward thr audio_data 0 = None"
| "scan_backward thr audio_data (Suc X) =
     (if thr < of_int (sint (audio_data ! X)) then Some X
      else scan_backward thr audio_data X)"

definition find_first_last_non_silent ::
  "AudioNormalizer \<Rightarrow> int16 list \<Rightarrow> int \<Rightarrow> int \<times> int" where
  "find_first_last_non_silent self audio_data silence_threshold_db =
     (let amplitude = amplitude_threshold self silence_threshold_db;
          non_silent_index_start = scan_forward amplitude audio_data 0;
          non_silent_index_end = scan_backward amplitude audio_data (length audio_data)
      in case (non_silent_index_start, non_silent_index_end) of
           (Some s, Some e) \<Rightarrow>
             (max (int s - samples_to_pad_start self) 0,
              min (int e + samples_to_pad_end self) (int (length audio_data)))
         | _ \<Rightarrow> (0, int (length audio_data)))"

text \<open>The stages of \<open>normalize\<close>, in the order of the source.\<close>

definition peak_normalize :: "rat list \<Rightarrow> pyexc + rat list" where
  "peak_normalize audio_float =
     (case np_max (map abs audio_float) of
        Inl e \<Rightarrow> Inl e
      | Inr peak \<Rightarrow>
          Inr (if 0 < peak then map (\<lambda>x. x / peak) audio_float else audio_float))"

definition trim_end :: "AudioNormalizer \<Rightarrow> bool \<Rightarrow> 'a list \<Rightarrow> 'a list" where
  "trim_end self is_last_chunk audio_float =
     (if \<not> is_last_chunk \<and> samples_to_trim self < int (length audio_float)
      then py_slice audio_float 0 (- samples_to_trim self)
      else audio_float)"

definition quantize :: "AudioNormalizer \<Rightarrow> rat list \<Rightarrow> int16 list" where
  "quantize self audio_float =
     map (\<lambda>x. astype_int16 (x * of_int (int16_max self))) audio_float"

definition normalize :: "AudioNormalizer \<Rightarrow> ndarray \<Rightarrow> bool \<Rightarrow> pyexc + int16 list" where
  "normalize self audio_data is_last_chunk =
     (case peak_normalize (astype_float32 audio_data) of
        Inl e \<Rightarrow> Inl e
      | Inr audio_float \<Rightarrow>
          (let audio_int = quantize self (trim_end self is_last_chunk audio_float);
               (start_index, end_index) = find_first_last_non_silent self audio_int (- 45)
           in Inr (py_slice audio_int start_index end_index)))"

subsection \<open>AudioService\<close>

text \<open>Values of encoder parameters: the strings and floats of the settings tables.\<close>

datatype pyval = PyStr string | PyFloat rat

type_synonym kwargs = "string \<rightharpoonup> pyval"
type_synonym format_table = "string \<rightharpoonup> kwargs"

definition DEFAULT_SETTINGS :: format_table where
  "DEFAULT_SETTINGS =
     [''mp3'' \<mapsto> [''bitrate_mode'' \<mapsto> PyStr ''CONSTANT'', ''compression_level'' \<mapsto> PyFloat 0],
      ''opus'' \<mapsto> [''compression_level'' \<mapsto> PyFloat 0],
      ''flac'' \<mapsto> [''compression_level'' \<mapsto> PyFloat 0]]"

text \<open>
  What \<open>convert_audio\<close> calls but does not define. A writer is given the samples,
  the sample rate, the keywords written out at the call and the mapping passed with
  \<open>**\<close>; it answers with the bytes it put into the fresh buffer, or raises (for an
  invalid or duplicated keyword as much as for a codec failure).
  \<open>float32_tobytes\<close> is the four-byte encoding of one float32 sample.
\<close>

record Collaborators =
  config :: Settings
  sf_write :: "ndarray \<Rightarrow> int \<Rightarrow> kwargs \<Rightarrow> kwargs \<Rightarrow> pyexc + byte list"
  wavfile_write :: "int \<Rightarrow> ndarray \<Rightarrow> pyexc + byte list"
  float32_tobytes :: "rat \<Rightarrow> byte list"

text \<open>\<open>arr.tobytes()\<close> on a little-endian host.\<close>

definition int16_tobytes :: "int16 \<Rightarrow> byte list" where
  "int16_tobytes w = [ucast w, ucast (drop_bit 8 w)]"

fun tobytes :: "Collaborators \<Rightarrow> ndarray \<Rightarrow> byte list" where
  "tobytes env (Int16Array xs) = concat (map int16_tobytes xs)"
| "tobytes env (Float32Array xs) = concat (map (float32_tobytes env) xs)"

text \<open>\<open>d[key]\<close>, which raises \<open>KeyError\<close> on a missing key.\<close>

definition dict_getitem :: "(string \<rightharpoonup> 'v) \<Rightarrow> string \<Rightarrow> pyexc + 'v" where
  "dict_getitem d key = (case d key of None \<Rightarrow> Inl (PyExc ''KeyError'' key) | Some v \<Rightarrow> Inr v)"

text \<open>\<open>format_settings.get(fmt, {}) if format_settings else {}\<close>: \<open>None\<close> and the
  empty dict are both false.\<close>

definition get_format_settings :: "format_table option \<Rightarrow> string \<Rightarrow> kwargs" where
  "get_format_settings format_settings fmt =
     (case format_settings of
        None \<Rightarrow> Map.empty
      | Some fs \<Rightarrow>
          if fs = Map.empty then Map.empty
          else (case fs fmt of None \<Rightarrow> Map.empty | Some s \<Rightarrow> s))"

text \<open>\<open>{**AudioService.DEFAULT_SETTINGS[fmt], **settings}\<close>\<close>

definition merge_settings :: "string \<Rightarrow> kwargs \<Rightarrow> pyexc + kwargs" where
  "merge_settings fmt settings =
     (case dict_getitem DEFAULT_SETTINGS fmt of
        Inl e \<Rightarrow> Inl e
      | Inr defaults \<Rightarrow> Inr (defaults ++ settings))"

text \<open>The first statement of the \<open>try\<close> block.\<close>

definition normalized_audio ::
  "Collaborators \<Rightarrow> ndarray \<Rightarrow> bool \<Rightarrow> AudioNormalizer option \<Rightarrow> bool \<Rightarrow> pyexc + ndarray" where
  "normalized_audio env audio_data is_last_chunk normalizer stream =
     (if stream then
        (let normalizer = (case normalizer of
                             None \<Rightarrow> AudioNormalizer_init (config env)
                           | Some n \<Rightarrow> n)
         in case normalize normalizer audio_data is_last_chunk of
              Inl e \<Rightarrow> Inl e
            | Inr a \<Rightarrow> Inr (Int16Array a))
      else Inr audio_data)"

definition unsupported_message :: "string \<Rightarrow> string" where
  "unsupported_message output_format =
     ''Format '' @ output_format @ '' not supported. Supported formats are: wav, mp3, opus, flac, pcm.''"

text \<open>The body of the \<open>try\<close> block.\<close>

definition convert_audio_try ::
  "Collaborators \<Rightarrow> ndarray \<Rightarrow> int \<Rightarrow> string \<Rightarrow> bool \<Rightarrow> bool \<Rightarrow> AudioNormalizer option
     \<Rightarrow> format_table option \<Rightarrow> bool \<Rightarrow> pyexc + byte list" where
  "convert_audio_try env audio_data rate output_format is_first_chunk is_last_chunk
       normalizer format_settings stream =
     (case normalized_audio env audio_data is_last_chunk normalizer stream of
        Inl e \<Rightarrow> Inl e
      | Inr normalized \<Rightarrow>
          if output_format = ''pcm'' then Inr (tobytes env normalized)
          else if output_format = ''wav'' then
            (if stream
             then sf_write env normalized rate
                    [''format'' \<mapsto> PyStr ''WAV'', ''subtype'' \<mapsto> PyStr ''PCM_16''] Map.empty
             else wavfile_write env rate normalized)
          else if output_format = ''mp3'' then
            (case merge_settings ''mp3'' (get_format_settings format_settings ''mp3'') of
               Inl e \<Rightarrow> Inl e
             | Inr settings \<Rightarrow>
                 sf_write env normalized rate [''format'' \<mapsto> PyStr ''MP3''] settings)
          else if output_format = ''opus'' then
            (case merge_settings ''opus'' (get_format_settings format_settings ''opus'') of
               Inl e \<Rightarrow> Inl e
             | Inr settings \<Rightarrow>
                 sf_write env normalized rate
                   [''format'' \<mapsto> PyStr ''OGG'', ''subtype'' \<mapsto> PyStr ''OPUS''] settings)
          else if output_format = ''flac'' then
            (case merge_settings ''flac'' (get_format_settings format_settings ''flac'') of
               Inl e \<Rightarrow> Inl e
             | Inr settings \<Rightarrow>
                 sf_write env normalized rate
                   [''format'' \<mapsto> PyStr ''FLAC'', ''subtype'' \<mapsto> PyStr ''PCM_16''] settings)
          else if output_format = ''aac'' then
            Inl (ValueError
              ''Format aac not supported. Supported formats are: wav, mp3, opus, flac, pcm.'')
          else Inl (ValueError (unsupported_message output_format)))"

text \<open>The whole function: \<open>except Exception as e\<close> turns whatever the body raised
  into a \<open>ValueError\<close> that quotes \<open>str(e)\<close>.\<close>

definition convert_audio ::
  "Collaborators \<Rightarrow> ndarray \<Rightarrow> int \<Rightarrow> string \<Rightarrow> bool \<Rightarrow> bool \<Rightarrow> AudioNormalizer option
     \<Rightarrow> format_table option \<Rightarrow> bool \<Rightarrow> pyexc + byte list" where
  "convert_audio env audio_data rate output_format is_first_chunk is_last_chunk
       normalizer format_settings stream =
     (case convert_audio_try env audio_data rate output_format is_first_chunk
             is_last_chunk normalizer format_settings stream of
        Inl e \<Rightarrow>
          Inl (ValueError (''Failed to convert audio to '' @ output_format @ '': '' @ exc_msg e))
      | Inr bytes \<Rightarrow> Inr bytes)"

subsection \<open>The resolver of the specification and fixtures\<close>

text \<open>
  The specification's \<open>resolve(format, overrides)\<close>, written from its words: the
  static default mapping of the format with the caller's keys for that same format
  laid over it, and the empty mapping for a format without defaults.
\<close>

definition spec_resolve :: "string \<Rightarrow> format_table option \<Rightarrow> kwargs" where
  "spec_resolve fmt overrides =
     (\<lambda>key.
        case (case overrides of
                None \<Rightarrow> None
              | Some ov \<Rightarrow> (case ov fmt of None \<Rightarrow> None | Some kv \<Rightarrow> kv key)) of
          Some v \<Rightarrow> Some v
        | None \<Rightarrow> (case DEFAULT_SETTINGS fmt of None \<Rightarrow> None | Some d \<Rightarrow> d key))"

text \<open>Concrete settings and writers for evaluating the functions on examples.\<close>

definition example_settings :: Settings where
  "example_settings = \<lparr> gap_trim_ms = 250, dynamic_gap_trim_padding_ms = 410 \<rparr>"

definition stub_collaborators :: Collaborators where
  "stub_collaborators =
     \<lparr> config = example_settings,
       sf_write = (\<lambda>samples rate keywords settings. Inr [82, 73, 70, 70]),
       wavfile_write = (\<lambda>rate samples. Inr [82, 73, 70, 70]),
       float32_tobytes = (\<lambda>x. [0, 0, 0, 0]) \<rparr>"

section \<open>Properties\<close>

subsection \<open>The two scans\<close>

lemma scan_forward_None:
  "(scan_forward thr xs k = None) = (\<forall>a \<in> set xs. \<not> thr < of_int (sint a))"
  by (induction xs arbitrary: k) auto

lemma scan_forward_Some:
  "scan_forward thr xs k = Some i \<Longrightarrow>
     k \<le> i \<and> i < k + length xs \<and> thr < of_int (sint (xs ! (i - k))) \<and>
     (\<forall>j < i - k. \<not> thr < of_int (sint (xs ! j)))"
proof (induction xs arbitrary: k)
  case Nil
  then show ?case by simp
next
  case (Cons a as)
  show ?case
  proof (cases "thr < of_int (sint a)")
    case True
    with Cons.prems show ?thesis by simp
  next
    case False
    with Cons.prems have rec: "scan_forward thr as (Suc k) = Some i" by simp
    from Cons.IH [OF rec] have ih: "Suc k \<le> i" "i < Suc k + length as"
      "thr < of_int (sint (as ! (i - Suc k)))"
      "\<forall>j < i - Suc k. \<not> thr < of_int (sint (as ! j))" by auto
    have idx: "i - k = Suc (i - Suc k)" using ih(1) by simp
    have "\<forall>j < i - k. \<not> thr < of_int (sint ((a # as) ! j))"
    proof (intro allI impI)
      fix j assume "j < i - k"
      then show "\<not> thr < of_int (sint ((a # as) ! j))"
        using False ih(4) idx by (cases j) auto
    qed
    then show ?thesis using ih idx by simp
  qed
qed

lemma scan_backward_None:
  "(scan_backward thr xs n = None) = (\<forall>j < n. \<not> thr < of_int (sint (xs ! j)))"
  by (induction n) (auto simp: less_Suc_eq)

lemma scan_backward_Some:
  "scan_backward thr xs n = Some i \<Longrightarrow>
     i < n \<and> thr < of_int (sint (xs ! i)) \<and>
     (\<forall>j. i < j \<and> j < n \<longrightarrow> \<not> thr < of_int (sint (xs ! j)))"
proof (induction n)
  case 0
  then show ?case by simp
next
  case (Suc n)
  show ?case
  proof (cases "thr < of_int (sint (xs ! n))")
    case True
    with Suc.prems show ?thesis by auto
  next
    case False
    with Suc.prems have "scan_backward thr xs n = Some i" by simp
    from Suc.IH [OF this] show ?thesis using False by (auto simp: less_Suc_eq)
  qed
qed

lemma scan_first_le_last:
  assumes "scan_forward thr xs 0 = Some s" and "scan_backward thr xs (length xs) = Some e"
  shows "s \<le> e" and "e < length xs"
proof -
  from scan_forward_Some [OF assms(1)]
  have s: "s < length xs" "thr < of_int (sint (xs ! s))" by auto
  from scan_backward_Some [OF assms(2)]
  have e: "e < length xs" "\<forall>j. e < j \<and> j < length xs \<longrightarrow> \<not> thr < of_int (sint (xs ! j))"
    by auto
  show "s \<le> e" using s e by (meson not_le_imp_less)
  show "e < length xs" by (rule e(1))
qed

lemma scan_silent:
  assumes "\<forall>a \<in> set xs. \<not> thr < of_int (sint a)"
  shows "scan_forward thr xs 0 = None"
  using assms by (simp add: scan_forward_None)

lemma py_slice_in_range:
  assumes "0 \<le> a" "a \<le> b" "b \<le> int (length xs)"
  shows "py_slice xs a b = take (nat (b - a)) (drop (nat a) xs)"
  using assms by (simp add: py_slice_def slice_index_def Let_def)

lemma length_py_slice: "length (py_slice xs a b) \<le> length xs"
  by (simp add: py_slice_def Let_def)

lemma set_py_slice: "set (py_slice xs a b) \<subseteq> set xs"
  unfolding py_slice_def Let_def
  by (meson set_take_subset set_drop_subset subset_trans)

subsection \<open>The default threshold and the constructor\<close>

text \<open>At \<open>-45\<close> dBFS the threshold lies strictly between 184 and 185, so an int16
  sample is above it exactly when it is at least 185.\<close>

lemma default_threshold_power: "(10 powr (- 45 / 20 :: real)) ^ 4 = 1 / 10 ^ 9"
proof -
  have "(10 powr (- 45 / 20 :: real)) ^ 4 = (10 powr (- 45 / 20 :: real)) powr (real 4)"
    by (subst powr_realpow) simp_all
  also have "\<dots> = 10 powr (- 9 :: real)" by (simp add: powr_powr)
  also have "\<dots> = 1 / 10 ^ 9" by (simp add: powr_minus_divide powr_realpow[symmetric] del: powr_realpow)
  finally show ?thesis .
qed

lemma default_threshold_bounds:
  "184 < 32767 * (10 powr (- 45 / 20 :: real))" "32767 * (10 powr (- 45 / 20 :: real)) < 185"
proof -
  let ?t = "10 powr (- 45 / 20 :: real)"
  have "(184 / 32767 :: real) ^ 4 < ?t ^ 4"
    unfolding default_threshold_power by (simp add: field_simps)
  then have "184 / 32767 < ?t" by (rule power_less_imp_less_base) simp
  then show "184 < 32767 * ?t" by (simp add: field_simps)
  have "?t ^ 4 < (185 / 32767 :: real) ^ 4"
    unfolding default_threshold_power by (simp add: field_simps)
  then have "?t < 185 / 32767" by (rule power_less_imp_less_base) simp
  then show "32767 * ?t < 185" by (simp add: field_simps)
qed

lemma loud_default:
  assumes "int16_max self = 32767"
  shows "(amplitude_threshold self (- 45) < of_int i) = (185 \<le> i)"
proof -
  have eq: "amplitude_threshold self (- 45) = 32767 * (10 powr (- 45 / 20 :: real))"
    using assms by (simp add: amplitude_threshold_def)
  show ?thesis
  proof
    assume "amplitude_threshold self (- 45) < of_int i"
    then have "(184::real) < of_int i" using default_threshold_bounds(1) eq by linarith
    then have "184 < i" by linarith
    then show "185 \<le> i" by simp
  next
    assume "185 \<le> i"
    then have "(185::real) \<le> of_int i" by linarith
    then show "amplitude_threshold self (- 45) < of_int i"
      using default_threshold_bounds(2) eq by linarith
  qed
qed

lemma loud_default_numeral:
  assumes "int16_max self = 32767"
  shows "(amplitude_threshold self (- 45) < 0) = False"
    and "(amplitude_threshold self (- 45) < 1) = False"
    and "(amplitude_threshold self (- 45) < numeral n) = (185 \<le> (numeral n :: int))"
    and "(amplitude_threshold self (- 45) < - numeral n) = False"
  using loud_default [OF assms, of 0] loud_default [OF assms, of 1]
    loud_default [OF assms, of "numeral n"] loud_default [OF assms, of "- numeral n"]
  by simp_all

lemma trunc_of_int: "trunc (of_int i) = i"
  by (simp add: trunc_def)

lemma trunc_ms_to_samples: "trunc (of_int (ms * 24000) / 1000) = 24 * ms"
proof -
  have "(of_int (ms * 24000) / 1000 :: rat) = of_int (24 * ms)" by simp
  then show ?thesis by (simp only: trunc_of_int)
qed

lemma init_fields:
  "int16_max (AudioNormalizer_init c) = 32767"
  "samples_to_pad_start (AudioNormalizer_init c) = 1200"
  "samples_to_trim (AudioNormalizer_init c) = 24 * gap_trim_ms c"
  "samples_to_pad_end (AudioNormalizer_init c) = max (24 * dynamic_gap_trim_padding_ms c - 1200) 0"
  using trunc_ms_to_samples [of 50] trunc_ms_to_samples [of "gap_trim_ms c"]
    trunc_ms_to_samples [of "dynamic_gap_trim_padding_ms c"]
  by (simp_all add: AudioNormalizer_init_def Let_def)

lemmas normalize_eval =
  normalize_def peak_normalize_def trim_end_def quantize_def astype_int16_def trunc_def
  find_first_last_non_silent_def Let_def loud_default_numeral init_fields
  py_slice_def slice_index_def

subsection \<open>Indices returned by the silence locator\<close>

text \<open>
  C4. For every int16 buffer, every threshold and every normalizer whose two paddings
  are not negative, the pair returned by \<open>find_first_last_non_silent\<close> satisfies
  \<open>0 \<le> start \<le> end \<le> len(buffer)\<close>; the slice it selects has \<open>end - start\<close>
  samples, so it never widens the buffer.
\<close>

theorem locator_indices_in_range:
  assumes "0 \<le> samples_to_pad_start self" and "0 \<le> samples_to_pad_end self"
    and "find_first_last_non_silent self audio_data db = (start_index, end_index)"
  shows "0 \<le> start_index \<and> start_index \<le> end_index \<and> end_index \<le> int (length audio_data)
         \<and> length (py_slice audio_data start_index end_index) = nat (end_index - start_index)"
proof -
  let ?thr = "amplitude_threshold self db"
  have bounds: "0 \<le> start_index \<and> start_index \<le> end_index \<and> end_index \<le> int (length audio_data)"
  proof (cases "scan_forward ?thr audio_data 0")
    case None
    with assms(3) show ?thesis by (simp add: find_first_last_non_silent_def)
  next
    case (Some s)
    show ?thesis
    proof (cases "scan_backward ?thr audio_data (length audio_data)")
      case None
      with Some assms(3) show ?thesis by (simp add: find_first_last_non_silent_def)
    next
      case (Some e)
      note se = scan_first_le_last [OF \<open>scan_forward ?thr audio_data 0 = Some s\<close> Some]
      from Some \<open>scan_forward ?thr audio_data 0 = Some s\<close> assms(3)
      have "start_index = max (int s - samples_to_pad_start self) 0"
        "end_index = min (int e + samples_to_pad_end self) (int (length audio_data))"
        by (simp_all add: find_first_last_non_silent_def)
      then show ?thesis using se assms(1,2) by auto
    qed
  qed
  moreover from bounds have "nat (end_index - start_index) \<le> length audio_data - nat start_index"
    by linarith
  ultimately show ?thesis by (simp add: py_slice_in_range)
qed

theorem locator_indices_in_range_witness:
  "find_first_last_non_silent
      \<lparr> int16_max = 32767, chunk_trim_ms = 0, sample_rate = 24000, samples_to_trim = 0,
        samples_to_pad_start = 1, samples_to_pad_end = 1 \<rparr>
      [0, 0, 0, 32767, 0, 0, 0] (- 45) = (2, 4)
   \<and> length (py_slice [0, 0, 0, 32767, 0, 0, 0 :: int16] 2 4) = 2"
proof -
  let ?self = "\<lparr> int16_max = 32767, chunk_trim_ms = 0, sample_rate = 24000, samples_to_trim = 0,
        samples_to_pad_start = 1, samples_to_pad_end = 1 \<rparr>"
  have run: "find_first_last_non_silent ?self [0, 0, 0, 32767, 0, 0, 0] (- 45) = (2, 4)"
    by (simp add: find_first_last_non_silent_def Let_def loud_default_numeral numeral_eq_Suc)
  from locator_indices_in_range [of ?self, OF _ _ run] show ?thesis using run by simp
qed

subsection \<open>The stages of normalize\<close>

lemma foldl_max_ge_start: "(a :: rat) \<le> foldl max a xs"
proof (induction xs arbitrary: a)
  case Nil
  show ?case by simp
next
  case (Cons y ys)
  have "a \<le> max a y" by simp
  also have "\<dots> \<le> foldl max (max a y) ys" by (rule Cons.IH)
  finally show ?case by simp
qed

lemma foldl_max_ge_elem: "x \<in> set xs \<Longrightarrow> (x :: rat) \<le> foldl max a xs"
proof (induction xs arbitrary: a)
  case Nil
  then show ?case by simp
next
  case (Cons y ys)
  show ?case
  proof (cases "x = y")
    case True
    have "y \<le> max a y" by simp
    also have "\<dots> \<le> foldl max (max a y) ys" by (rule foldl_max_ge_start)
    finally show ?thesis using True by simp
  next
    case False
    with Cons.prems have "x \<in> set ys" by simp
    from Cons.IH [OF this] show ?thesis by simp
  qed
qed

lemma np_max_upper:
  assumes "np_max xs = Inr m" and "x \<in> set xs"
  shows "x \<le> m"
proof (cases xs)
  case Nil
  with assms show ?thesis by simp
next
  case (Cons a as)
  with assms have m: "m = foldl max a as" by simp
  from assms(2) Cons have "x = a \<or> x \<in> set as" by simp
  then show ?thesis using m foldl_max_ge_start [of a as] foldl_max_ge_elem [of x as a] by auto
qed

lemma np_max_returns: "xs \<noteq> [] \<Longrightarrow> \<exists>m. np_max xs = Inr m"
  by (cases xs) simp_all

lemma peak_normalize_returns:
  "audio_float \<noteq> [] \<Longrightarrow> \<exists>ys. peak_normalize audio_float = Inr ys"
  using np_max_returns [of "map abs audio_float"]
  by (auto simp: peak_normalize_def)

lemma peak_normalize_empty:
  "peak_normalize [] = Inl (ValueError
     ''zero-size array to reduction operation maximum which has no identity'')"
  by (simp add: peak_normalize_def)

lemma peak_normalize_bounded:
  assumes "peak_normalize audio_float = Inr ys"
  shows "length ys = length audio_float" and "\<forall>y \<in> set ys. \<bar>y\<bar> \<le> 1"
proof -
  from assms obtain peak where peak: "np_max (map abs audio_float) = Inr peak"
    and ys: "ys = (if 0 < peak then map (\<lambda>x. x / peak) audio_float else audio_float)"
    by (auto simp: peak_normalize_def split: sum.splits)
  show "length ys = length audio_float" using ys by simp
  have le: "\<bar>x\<bar> \<le> peak" if "x \<in> set audio_float" for x
    using np_max_upper [OF peak, of "\<bar>x\<bar>"] that by simp
  show "\<forall>y \<in> set ys. \<bar>y\<bar> \<le> 1"
  proof (cases "0 < peak")
    case True
    have "\<bar>x / peak\<bar> \<le> 1" if "x \<in> set audio_float" for x
      using le [OF that] True by (simp add: abs_divide)
    then show ?thesis using ys True by auto
  next
    case False
    have "\<bar>x\<bar> \<le> 1" if "x \<in> set audio_float" for x
    proof -
      from le [OF that] False have "\<bar>x\<bar> \<le> 0" by linarith
      then show ?thesis by linarith
    qed
    then show ?thesis using ys False by simp
  qed
qed

lemma trunc_bounded:
  assumes "\<bar>y\<bar> \<le> 1"
  shows "\<bar>trunc (y * 32767)\<bar> \<le> 32767"
proof -
  from assms have lo: "- 32767 \<le> y * 32767" and hi: "y * 32767 \<le> 32767" by simp_all
  show ?thesis
  proof (cases "0 \<le> y * 32767")
    case True
    have t: "trunc (y * 32767) = \<lfloor>y * 32767\<rfloor>" using True by (simp add: trunc_def)
    have a: "\<lfloor>y * 32767\<rfloor> \<le> 32767" using hi by (simp add: floor_le_iff)
    have b: "0 \<le> \<lfloor>y * 32767\<rfloor>" using True by simp
    from a b show ?thesis unfolding t by linarith
  next
    case False
    have t: "trunc (y * 32767) = \<lceil>y * 32767\<rceil>" using False by (simp add: trunc_def)
    have a: "- 32767 \<le> \<lceil>y * 32767\<rceil>" using lo by (simp add: le_ceiling_iff)
    have b: "\<lceil>y * 32767\<rceil> \<le> 0" using False by (simp add: ceiling_le_iff)
    from a b show ?thesis unfolding t by linarith
  qed
qed

lemma sint_astype_int16:
  assumes "\<bar>trunc r\<bar> \<le> 32767"
  shows "sint (astype_int16 r) = trunc r"
proof -
  have "signed_take_bit 15 (trunc r) = trunc r"
    using assms by (intro signed_take_bit_int_eq_self) simp_all
  then show ?thesis by (simp add: astype_int16_def signed_of_int)
qed

lemma quantize_bounded:
  assumes "int16_max self = 32767" and "\<forall>y \<in> set ys. \<bar>y\<bar> \<le> 1"
  shows "\<forall>s \<in> set (quantize self ys). \<bar>sint s\<bar> \<le> 32767"
proof
  fix s assume "s \<in> set (quantize self ys)"
  then obtain y where y: "y \<in> set ys" and s: "s = astype_int16 (y * 32767)"
    using assms(1) by (auto simp: quantize_def)
  from y assms(2) have "\<bar>trunc (y * 32767)\<bar> \<le> 32767" by (simp add: trunc_bounded)
  then show "\<bar>sint s\<bar> \<le> 32767" using s by (simp add: sint_astype_int16)
qed

lemma length_quantize: "length (quantize self ys) = length ys"
  by (simp add: quantize_def)

lemma length_trim_end: "length (trim_end self is_last_chunk xs) \<le> length xs"
  by (simp add: trim_end_def length_py_slice)

lemma set_trim_end: "set (trim_end self is_last_chunk xs) \<subseteq> set xs"
  using set_py_slice [of xs 0 "- samples_to_trim self"] by (simp add: trim_end_def)

lemma length_astype_float32: "length (astype_float32 chunk) = len_ndarray chunk"
  by (cases chunk) simp_all

lemma normalize_unfold:
  assumes "peak_normalize (astype_float32 chunk) = Inr audio_float"
  shows "normalize self chunk is_last_chunk =
     Inr (py_slice (quantize self (trim_end self is_last_chunk audio_float))
            (fst (find_first_last_non_silent self
                    (quantize self (trim_end self is_last_chunk audio_float)) (- 45)))
            (snd (find_first_last_non_silent self
                    (quantize self (trim_end self is_last_chunk audio_float)) (- 45))))"
  using assms by (simp add: normalize_def Let_def split: prod.splits)

lemma normalize_empty:
  "len_ndarray chunk = 0 \<Longrightarrow> normalize self chunk is_last_chunk = Inl (ValueError
     ''zero-size array to reduction operation maximum which has no identity'')"
  by (cases chunk) (simp_all add: normalize_def peak_normalize_empty)

subsection \<open>Length and range of the normalized buffer\<close>

text \<open>
  C6. For every input chunk and every \<open>is_last_chunk\<close> flag, the buffer returned by
  \<open>normalize\<close> is no longer than the chunk and each of its samples has absolute value
  at most 32767. A buffer is returned for every chunk that has at least one sample
  (on a zero-length chunk \<open>np.max\<close> raises, so nothing is returned there).
\<close>

theorem normalize_output_bounded:
  assumes "int16_max self = 32767"
  shows "(0 < len_ndarray chunk \<longrightarrow> (\<exists>out. normalize self chunk is_last_chunk = Inr out)) \<and>
         (\<forall>out. normalize self chunk is_last_chunk = Inr out \<longrightarrow>
             length out \<le> len_ndarray chunk \<and> (\<forall>s \<in> set out. \<bar>sint s\<bar> \<le> 32767))"
proof (intro conjI allI impI)
  assume "0 < len_ndarray chunk"
  then have "astype_float32 chunk \<noteq> []" using length_astype_float32 [of chunk] by auto
  from peak_normalize_returns [OF this] obtain ys
    where "peak_normalize (astype_float32 chunk) = Inr ys" ..
  from normalize_unfold [OF this] show "\<exists>out. normalize self chunk is_last_chunk = Inr out"
    by blast
next
  fix out assume out: "normalize self chunk is_last_chunk = Inr out"
  then obtain ys where ys: "peak_normalize (astype_float32 chunk) = Inr ys"
    by (auto simp: normalize_def split: sum.splits)
  let ?q = "quantize self (trim_end self is_last_chunk ys)"
  from normalize_unfold [OF ys, of self is_last_chunk] out
  obtain a b where sl: "out = py_slice ?q a b" by simp
  have "length ?q \<le> length ys" by (simp add: length_quantize length_trim_end)
  also have "\<dots> = len_ndarray chunk"
    using peak_normalize_bounded(1) [OF ys] by (simp add: length_astype_float32)
  finally have "length ?q \<le> len_ndarray chunk" .
  then show "length out \<le> len_ndarray chunk"
    using length_py_slice [of ?q a b] sl by simp
  have "\<forall>y \<in> set (trim_end self is_last_chunk ys). \<bar>y\<bar> \<le> 1"
    using peak_normalize_bounded(2) [OF ys] set_trim_end [of self is_last_chunk ys] by blast
  from quantize_bounded [OF assms this] have "\<forall>s \<in> set ?q. \<bar>sint s\<bar> \<le> 32767" .
  then show "\<forall>s \<in> set out. \<bar>sint s\<bar> \<le> 32767"
    using set_py_slice [of ?q a b] sl by blast
qed

theorem normalize_output_bounded_witness:
  "normalize (AudioNormalizer_init example_settings) (Float32Array [0, 1, - 1]) True
     = Inr [0, 32767, - 32767]
   \<and> length [0, 32767, - 32767 :: int16] \<le> len_ndarray (Float32Array [0, 1, - 1])
   \<and> \<bar>sint (32767 :: int16)\<bar> \<le> 32767 \<and> \<bar>sint (- 32767 :: int16)\<bar> \<le> 32767"
proof -
  let ?self = "AudioNormalizer_init example_settings"
  have run: "normalize ?self (Float32Array [0, 1, - 1]) True = Inr [0, 32767, - 32767]"
    by (simp add: normalize_eval example_settings_def)
  from normalize_output_bounded [of ?self "Float32Array [0, 1, - 1]" True] run
  show ?thesis by (simp add: init_fields)
qed

subsection \<open>Samples with a negative value\<close>

lemma scan_forward_skip_silent:
  "\<forall>a \<in> set xs. \<not> thr < of_int (sint a) \<Longrightarrow>
     scan_forward thr (xs @ ys) k = scan_forward thr ys (k + length xs)"
  by (induction xs arbitrary: k) simp_all

lemma scan_backward_last:
  assumes "thr < of_int (sint (last (x # xs)))"
  shows "scan_backward thr (x # xs) (length (x # xs)) = Some (length xs)"
proof -
  have "last (x # xs) = (x # xs) ! length xs"
    using last_conv_nth [of "x # xs"] by simp
  with assms have "thr < of_int (sint ((x # xs) ! length xs))" by simp
  then show ?thesis by simp
qed

text \<open>
  C1. The locator compares the sample itself, not its absolute value, with the
  amplitude threshold. The sample \<open>-32767\<close> is above the \<open>-45\<close> dBFS threshold in
  absolute value, yet both scans of the one-sample buffer \<open>[-32767]\<close> find nothing;
  and in the buffer \<open>[-32767] + [0] * 1200 + [32767]\<close> the first non-silent index
  found is 1201, so the returned start is 1 and the leading full-scale sample is
  cut off.
\<close>

theorem negative_peak_taken_for_silence:
  "amplitude_threshold (AudioNormalizer_init example_settings) (- 45)
       < of_int \<bar>sint (- 32767 :: int16)\<bar>
   \<and> scan_forward (amplitude_threshold (AudioNormalizer_init example_settings) (- 45))
         [- 32767] 0 = None
   \<and> scan_backward (amplitude_threshold (AudioNormalizer_init example_settings) (- 45))
         [- 32767] 1 = None
   \<and> find_first_last_non_silent (AudioNormalizer_init example_settings)
         ((- 32767) # replicate 1200 0 @ [32767]) (- 45) = (1, 1202)"
proof -
  let ?self = "AudioNormalizer_init example_settings"
  let ?thr = "amplitude_threshold ?self (- 45)"
  have loud: "?thr < of_int \<bar>sint (- 32767 :: int16)\<bar>"
    using loud_default [of ?self 32767] by (simp add: init_fields)
  have fw: "scan_forward ?thr [- 32767] 0 = None"
    by (simp add: loud_default_numeral init_fields)
  have bw: "scan_backward ?thr [- 32767] 1 = None"
    by (simp add: loud_default_numeral init_fields)
  have "scan_forward ?thr (replicate 1200 0 @ [32767]) (Suc 0) = scan_forward ?thr [32767] (Suc 0 + length (replicate 1200 (0 :: int16)))"
    by (rule scan_forward_skip_silent) (simp add: loud_default_numeral init_fields)
  then have first: "scan_forward ?thr ((- 32767) # replicate 1200 0 @ [32767]) 0 = Some 1201"
    by (simp add: loud_default_numeral init_fields)
  have last: "scan_backward ?thr ((- 32767) # replicate 1200 0 @ [32767])
                 (length ((- 32767 :: int16) # replicate 1200 0 @ [32767])) = Some 1201"
    using scan_backward_last [of ?thr "- 32767" "replicate 1200 0 @ [32767]"]
    by (simp add: loud_default_numeral init_fields)
  have pair: "find_first_last_non_silent ?self ((- 32767) # replicate 1200 0 @ [32767]) (- 45)
                = (1, 1202)"
    unfolding find_first_last_non_silent_def Let_def first last
    by (simp add: init_fields example_settings_def)
  from loud fw bw pair show ?thesis by simp
qed

subsection \<open>A chunk whose only loud sample is the first\<close>

text \<open>With an end padding of at least one sample the slice chosen by the locator
  in a non-empty buffer is never empty.\<close>

lemma locator_slice_nonempty:
  assumes "0 \<le> samples_to_pad_start self" and "1 \<le> samples_to_pad_end self"
    and "buffer \<noteq> []"
    and "find_first_last_non_silent self buffer db = (start_index, end_index)"
  shows "py_slice buffer start_index end_index \<noteq> []"
proof -
  let ?thr = "amplitude_threshold self db"
  have len: "0 < int (length buffer)" using assms(3) by simp
  have "0 \<le> start_index \<and> start_index < end_index \<and> end_index \<le> int (length buffer)"
  proof (cases "scan_forward ?thr buffer 0")
    case None
    with assms(4) len show ?thesis by (auto simp: find_first_last_non_silent_def)
  next
    case (Some s)
    show ?thesis
    proof (cases "scan_backward ?thr buffer (length buffer)")
      case None
      with Some assms(4) len show ?thesis by (auto simp: find_first_last_non_silent_def)
    next
      case (Some e)
      note se = scan_first_le_last [OF \<open>scan_forward ?thr buffer 0 = Some s\<close> Some]
      from Some \<open>scan_forward ?thr buffer 0 = Some s\<close> assms(4)
      have "start_index = max (int s - samples_to_pad_start self) 0"
        "end_index = min (int e + samples_to_pad_end self) (int (length buffer))"
        by (simp_all add: find_first_last_non_silent_def)
      then show ?thesis using se assms(1,2) by auto
    qed
  qed
  then have bounds: "0 \<le> start_index" "start_index < end_index"
    "end_index \<le> int (length buffer)" by simp_all
  then have "nat start_index < length buffer" by linarith
  with bounds have "0 < length (py_slice buffer start_index end_index)"
    by (simp add: py_slice_in_range)
  then show ?thesis by simp
qed

text \<open>
  C3. With an end padding of zero samples (a configured dynamic padding of 50 ms)
  the one-sample last chunk \<open>[1.0]\<close> is quantized to \<open>[32767]\<close>, which is above the
  threshold; the locator returns \<open>(0, 0)\<close> and \<open>normalize\<close> returns the empty buffer.
\<close>

theorem lone_leading_peak_trimmed_away:
  "normalize (AudioNormalizer_init \<lparr> gap_trim_ms = 250, dynamic_gap_trim_padding_ms = 50 \<rparr>)
      (Float32Array [1]) True = Inr []
   \<and> quantize (AudioNormalizer_init \<lparr> gap_trim_ms = 250, dynamic_gap_trim_padding_ms = 50 \<rparr>)
        [1] = [32767]
   \<and> find_first_last_non_silent
        (AudioNormalizer_init \<lparr> gap_trim_ms = 250, dynamic_gap_trim_padding_ms = 50 \<rparr>)
        [32767] (- 45) = (0, 0)"
  by (simp add: normalize_eval)

subsection \<open>Trimming the end of a chunk\<close>

lemma trim_end_last_chunk: "trim_end self True xs = xs"
  by (simp add: trim_end_def)

lemma trim_end_short_chunk:
  "int (length xs) \<le> samples_to_trim self \<Longrightarrow> trim_end self is_last_chunk xs = xs"
  by (simp add: trim_end_def)

lemma trim_end_positive:
  assumes "0 < samples_to_trim self" and "samples_to_trim self < int (length xs)"
  shows "trim_end self False xs = take (length xs - nat (samples_to_trim self)) xs"
  using assms by (simp add: trim_end_def py_slice_def slice_index_def Let_def nat_diff_distrib')

lemma trim_end_zero:
  assumes "samples_to_trim self = 0"
  shows "trim_end self False xs = []"
  using assms by (cases xs) (simp_all add: trim_end_def py_slice_def slice_index_def Let_def)


text \<open>
  C5. With a configured gap trim of 0 ms, \<open>samples_to_trim\<close> is 0 and the slice
  \<open>audio_float[:-0]\<close> of a chunk that is not the last one is empty: all three samples
  of \<open>[0, 1, 1]\<close> are dropped instead of none, and \<open>normalize\<close> returns the empty buffer.
\<close>

theorem zero_gap_trim_drops_chunk:
  "trim_end (AudioNormalizer_init \<lparr> gap_trim_ms = 0, dynamic_gap_trim_padding_ms = 410 \<rparr>)
      False [0, 1, 1 :: rat] = []
   \<and> normalize (AudioNormalizer_init \<lparr> gap_trim_ms = 0, dynamic_gap_trim_padding_ms = 410 \<rparr>)
      (Float32Array [0, 1, 1]) False = Inr []"
  by (simp add: normalize_eval)

subsection \<open>Silent buffers\<close>

lemma locator_silent:
  assumes "list_all (\<lambda>w. \<not> amplitude_threshold self db < of_int (sint w)) buffer"
  shows "find_first_last_non_silent self buffer db = (0, int (length buffer))"
proof -
  from assms have "\<forall>a \<in> set buffer. \<not> amplitude_threshold self db < of_int (sint a)"
    by (simp add: list_all_iff)
  then have "scan_forward (amplitude_threshold self db) buffer 0 = None"
    by (rule scan_silent)
  then show ?thesis by (simp add: find_first_last_non_silent_def)
qed

lemma py_slice_whole: "py_slice xs 0 (int (length xs)) = xs"
  by (simp add: py_slice_def slice_index_def)

text \<open>
  C7 as stated fails on the empty chunk. A chunk without samples has no sample
  above the threshold, but \<open>normalize\<close> does
  not return on it: \<open>np.max\<close> of the empty array raises.
\<close>

theorem empty_chunk_raises:
  "normalize (AudioNormalizer_init example_settings) (Float32Array []) False
     = Inl (ValueError ''zero-size array to reduction operation maximum which has no identity'')"
  by (simp add: normalize_empty)

text \<open>
  C7, amended. For every buffer in which no sample exceeds the threshold the locator
  returns \<open>(0, len(buffer))\<close>, and \<open>(0, 0)\<close> for the empty buffer. For every chunk
  with at least one sample, peak normalization returns, and if no sample of the
  trimmed and quantized chunk exceeds the \<open>-45\<close> dBFS threshold, \<open>normalize\<close> returns
  that whole buffer and raises nothing.
\<close>

theorem silent_buffer_kept_whole:
  "(list_all (\<lambda>w. \<not> amplitude_threshold self db < of_int (sint w)) buffer \<longrightarrow>
       find_first_last_non_silent self buffer db = (0, int (length buffer)))
   \<and> find_first_last_non_silent self [] db = (0, 0)
   \<and> (0 < len_ndarray chunk \<longrightarrow>
        (\<exists>audio_float. peak_normalize (astype_float32 chunk) = Inr audio_float \<and>
           (list_all (\<lambda>w. \<not> amplitude_threshold self (- 45) < of_int (sint w))
                (quantize self (trim_end self is_last_chunk audio_float)) \<longrightarrow>
             normalize self chunk is_last_chunk
               = Inr (quantize self (trim_end self is_last_chunk audio_float)))))"
proof (intro conjI impI)
  assume "list_all (\<lambda>w. \<not> amplitude_threshold self db < of_int (sint w)) buffer"
  then show "find_first_last_non_silent self buffer db = (0, int (length buffer))"
    by (rule locator_silent)
next
  show "find_first_last_non_silent self [] db = (0, 0)"
    using locator_silent [of self db "[]"] by simp
next
  assume "0 < len_ndarray chunk"
  then have "astype_float32 chunk \<noteq> []" using length_astype_float32 [of chunk] by auto
  from peak_normalize_returns [OF this] obtain ys
    where ys: "peak_normalize (astype_float32 chunk) = Inr ys" ..
  let ?q = "quantize self (trim_end self is_last_chunk ys)"
  have "normalize self chunk is_last_chunk = Inr ?q"
    if "list_all (\<lambda>w. \<not> amplitude_threshold self (- 45) < of_int (sint w)) ?q"
    using normalize_unfold [OF ys, of self is_last_chunk] locator_silent [OF that]
    by (simp add: py_slice_whole)
  with ys show "\<exists>audio_float. peak_normalize (astype_float32 chunk) = Inr audio_float \<and>
           (list_all (\<lambda>w. \<not> amplitude_threshold self (- 45) < of_int (sint w))
                (quantize self (trim_end self is_last_chunk audio_float)) \<longrightarrow>
             normalize self chunk is_last_chunk
               = Inr (quantize self (trim_end self is_last_chunk audio_float)))"
    by blast
qed

theorem silent_buffer_kept_whole_witness:
  "find_first_last_non_silent (AudioNormalizer_init example_settings) [0, - 32767, 184] (- 45)
      = (0, 3)
   \<and> find_first_last_non_silent (AudioNormalizer_init example_settings) [] (- 45) = (0, 0)
   \<and> peak_normalize (astype_float32 (Float32Array [0, - 1])) = Inr [0, - 1]
   \<and> normalize (AudioNormalizer_init example_settings) (Float32Array [0, - 1]) True
        = Inr [0, - 32767]"
proof -
  let ?self = "AudioNormalizer_init example_settings"
  have silent: "list_all (\<lambda>w. \<not> amplitude_threshold ?self (- 45) < of_int (sint w))
                  [0, - 32767, 184 :: int16]"
    by (simp add: loud_default_numeral init_fields)
  have pn: "peak_normalize (astype_float32 (Float32Array [0, - 1])) = Inr [0, - 1]"
    by (simp add: peak_normalize_def)
  have q: "quantize ?self (trim_end ?self True [0, - 1]) = [0, - 32767]"
    by (simp add: normalize_eval)
  have qsilent: "list_all (\<lambda>w. \<not> amplitude_threshold ?self (- 45) < of_int (sint w))
                  (quantize ?self (trim_end ?self True [0, - 1]))"
    unfolding q by (simp add: loud_default_numeral init_fields)
  from silent_buffer_kept_whole [of ?self "- 45" "[0, - 32767, 184 :: int16]" "Float32Array [0, - 1]" True]
    silent pn qsilent q
  show ?thesis by simp
qed

subsection \<open>Settings handed to the encoder\<close>

lemma default_settings_keys:
  "DEFAULT_SETTINGS ''mp3'' =
     Some [''bitrate_mode'' \<mapsto> PyStr ''CONSTANT'', ''compression_level'' \<mapsto> PyFloat 0]"
  "DEFAULT_SETTINGS ''opus'' = Some [''compression_level'' \<mapsto> PyFloat 0]"
  "DEFAULT_SETTINGS ''flac'' = Some [''compression_level'' \<mapsto> PyFloat 0]"
  by (simp_all add: DEFAULT_SETTINGS_def)

lemma merge_settings_spec:
  assumes "DEFAULT_SETTINGS fmt = Some d"
  shows "merge_settings fmt (get_format_settings fs fmt) = Inr (spec_resolve fmt fs)"
proof -
  have "d ++ get_format_settings fs fmt = spec_resolve fmt fs"
  proof
    fix key
    show "(d ++ get_format_settings fs fmt) key = spec_resolve fmt fs key"
      using assms
      by (auto simp: get_format_settings_def spec_resolve_def map_add_def split: option.splits)
  qed
  then show ?thesis using assms by (simp add: merge_settings_def dict_getitem_def)
qed

lemma spec_resolve_same_entry:
  "fs1 fmt = fs2 fmt \<Longrightarrow> spec_resolve fmt (Some fs1) = spec_resolve fmt (Some fs2)"
  by (simp add: spec_resolve_def)

lemma spec_resolve_none:
  "DEFAULT_SETTINGS fmt = Some d \<Longrightarrow> spec_resolve fmt None = d"
  by (simp add: spec_resolve_def)

lemma convert_audio_try_codec:
  assumes "fmt \<in> {''mp3'', ''opus'', ''flac''}"
  shows "convert_audio_try env audio_data rate fmt is_first_chunk is_last_chunk normalizer fs stream =
     (case normalized_audio env audio_data is_last_chunk normalizer stream of
        Inl e \<Rightarrow> Inl e
      | Inr normalized \<Rightarrow>
          sf_write env normalized rate
            (if fmt = ''mp3'' then [''format'' \<mapsto> PyStr ''MP3'']
             else if fmt = ''opus'' then [''format'' \<mapsto> PyStr ''OGG'', ''subtype'' \<mapsto> PyStr ''OPUS'']
             else [''format'' \<mapsto> PyStr ''FLAC'', ''subtype'' \<mapsto> PyStr ''PCM_16''])
            (spec_resolve fmt fs))"
proof -
  from assms consider "fmt = ''mp3''" | "fmt = ''opus''" | "fmt = ''flac''" by auto
  then show ?thesis
  proof cases
    case 1
    then show ?thesis
      by (simp add: convert_audio_try_def merge_settings_spec [OF default_settings_keys(1)]
            split: sum.splits)
  next
    case 2
    then show ?thesis
      by (simp add: convert_audio_try_def merge_settings_spec [OF default_settings_keys(2)]
            split: sum.splits)
  next
    case 3
    then show ?thesis
      by (simp add: convert_audio_try_def merge_settings_spec [OF default_settings_keys(3)]
            split: sum.splits)
  qed
qed

text \<open>
  C9. For every format among mp3, opus and flac and every overrides mapping, the
  writer is called with the settings \<open>spec_resolve\<close> describes: the default table of
  the format with the caller's keys for that format laid over it. With no overrides,
  or an empty overrides dict, these are exactly the defaults, and two overrides
  mappings that agree on the entry of the format give the same call, so entries for
  other formats have no effect.
\<close>

theorem encoder_settings_resolved:
  assumes "fmt \<in> {''mp3'', ''opus'', ''flac''}"
  shows "convert_audio env audio_data rate fmt is_first_chunk is_last_chunk normalizer fs stream =
     (case (case normalized_audio env audio_data is_last_chunk normalizer stream of
              Inl e \<Rightarrow> Inl e
            | Inr normalized \<Rightarrow>
                sf_write env normalized rate
                  (if fmt = ''mp3'' then [''format'' \<mapsto> PyStr ''MP3'']
                   else if fmt = ''opus''
                     then [''format'' \<mapsto> PyStr ''OGG'', ''subtype'' \<mapsto> PyStr ''OPUS'']
                   else [''format'' \<mapsto> PyStr ''FLAC'', ''subtype'' \<mapsto> PyStr ''PCM_16''])
                  (spec_resolve fmt fs)) of
        Inl e \<Rightarrow> Inl (ValueError (''Failed to convert audio to '' @ fmt @ '': '' @ exc_msg e))
      | Inr bytes \<Rightarrow> Inr bytes)
   \<and> DEFAULT_SETTINGS fmt = Some (spec_resolve fmt None)
   \<and> spec_resolve fmt (Some Map.empty) = spec_resolve fmt None
   \<and> (fs1 fmt = fs2 fmt \<longrightarrow>
        convert_audio env audio_data rate fmt is_first_chunk is_last_chunk normalizer (Some fs1) stream
          = convert_audio env audio_data rate fmt is_first_chunk is_last_chunk normalizer (Some fs2) stream)"
proof (intro conjI impI)
  show "convert_audio env audio_data rate fmt is_first_chunk is_last_chunk normalizer fs stream =
     (case (case normalized_audio env audio_data is_last_chunk normalizer stream of
              Inl e \<Rightarrow> Inl e
            | Inr normalized \<Rightarrow>
                sf_write env normalized rate
                  (if fmt = ''mp3'' then [''format'' \<mapsto> PyStr ''MP3'']
                   else if fmt = ''opus''
                     then [''format'' \<mapsto> PyStr ''OGG'', ''subtype'' \<mapsto> PyStr ''OPUS'']
                   else [''format'' \<mapsto> PyStr ''FLAC'', ''subtype'' \<mapsto> PyStr ''PCM_16''])
                  (spec_resolve fmt fs)) of
        Inl e \<Rightarrow> Inl (ValueError (''Failed to convert audio to '' @ fmt @ '': '' @ exc_msg e))
      | Inr bytes \<Rightarrow> Inr bytes)"
    unfolding convert_audio_def convert_audio_try_codec [OF assms] ..
next
  from assms obtain d where d: "DEFAULT_SETTINGS fmt = Some d"
    using default_settings_keys by auto
  then show "DEFAULT_SETTINGS fmt = Some (spec_resolve fmt None)"
    by (simp add: spec_resolve_none)
next
  show "spec_resolve fmt (Some Map.empty) = spec_resolve fmt None"
    by (simp add: spec_resolve_def)
next
  assume "fs1 fmt = fs2 fmt"
  then have same: "spec_resolve fmt (Some fs1) = spec_resolve fmt (Some fs2)"
    by (rule spec_resolve_same_entry)
  show "convert_audio env audio_data rate fmt is_first_chunk is_last_chunk normalizer (Some fs1) stream
          = convert_audio env audio_data rate fmt is_first_chunk is_last_chunk normalizer (Some fs2) stream"
    unfolding convert_audio_def convert_audio_try_codec [OF assms] same ..
qed

theorem encoder_settings_resolved_witness:
  "spec_resolve ''mp3''
      (Some [''mp3'' \<mapsto> [''compression_level'' \<mapsto> PyFloat (4 / 5)],
             ''flac'' \<mapsto> [''compression_level'' \<mapsto> PyFloat 1]]) ''compression_level''
     = Some (PyFloat (4 / 5))
   \<and> spec_resolve ''mp3''
      (Some [''mp3'' \<mapsto> [''compression_level'' \<mapsto> PyFloat (4 / 5)],
             ''flac'' \<mapsto> [''compression_level'' \<mapsto> PyFloat 1]]) ''bitrate_mode''
     = Some (PyStr ''CONSTANT'')
   \<and> convert_audio
        (stub_collaborators \<lparr> sf_write := (\<lambda>samples rate keywords settings.
            if settings ''compression_level'' = Some (PyFloat (4 / 5))
               \<and> settings ''bitrate_mode'' = Some (PyStr ''CONSTANT'')
            then Inr [73, 68, 51]
            else Inl (PyExc ''TypeError'' ''unexpected settings'')) \<rparr>)
        (Int16Array [1, 2]) 24000 ''mp3'' True False None
        (Some [''mp3'' \<mapsto> [''compression_level'' \<mapsto> PyFloat (4 / 5)],
               ''flac'' \<mapsto> [''compression_level'' \<mapsto> PyFloat 1]]) False
     = Inr [73, 68, 51]"
proof -
  let ?fs = "Some [''mp3'' \<mapsto> [''compression_level'' \<mapsto> PyFloat (4 / 5)],
                   ''flac'' \<mapsto> [''compression_level'' \<mapsto> PyFloat 1]]"
  let ?env = "stub_collaborators \<lparr> sf_write := (\<lambda>samples rate keywords settings.
            if settings ''compression_level'' = Some (PyFloat (4 / 5))
               \<and> settings ''bitrate_mode'' = Some (PyStr ''CONSTANT'')
            then Inr [73, 68, 51]
            else Inl (PyExc ''TypeError'' ''unexpected settings'')) \<rparr>"
  have member: "''mp3'' \<in> {''mp3'', ''opus'', ''flac''}" by simp
  have level: "spec_resolve ''mp3'' ?fs ''compression_level'' = Some (PyFloat (4 / 5))"
    by (simp add: spec_resolve_def)
  have mode: "spec_resolve ''mp3'' ?fs ''bitrate_mode'' = Some (PyStr ''CONSTANT'')"
    by (simp add: spec_resolve_def DEFAULT_SETTINGS_def)
  from encoder_settings_resolved [OF member, of ?env "Int16Array [1, 2]" 24000 True False None ?fs False]
  have "convert_audio ?env (Int16Array [1, 2]) 24000 ''mp3'' True False None ?fs False
          = Inr [73, 68, 51]"
    by (simp add: normalized_audio_def level mode)
  with level mode show ?thesis by simp
qed

lemma convert_audio_try_failure:
  assumes "convert_audio_try env audio_data rate fmt is_first_chunk is_last_chunk normalizer fs stream
             = Inl cause"
  shows "(stream \<and> normalize (case normalizer of None \<Rightarrow> AudioNormalizer_init (config env)
                                 | Some n \<Rightarrow> n) audio_data is_last_chunk = Inl cause)
       \<or> (\<exists>samples keywords settings. sf_write env samples rate keywords settings = Inl cause)
       \<or> (\<exists>samples. wavfile_write env rate samples = Inl cause)
       \<or> (fmt \<notin> {''wav'', ''mp3'', ''opus'', ''flac'', ''pcm''}
            \<and> cause = ValueError (unsupported_message fmt))"
proof (cases "normalized_audio env audio_data is_last_chunk normalizer stream")
  case (Inl e)
  with assms have "e = cause" by (simp add: convert_audio_try_def)
  with Inl show ?thesis
    by (auto simp: normalized_audio_def Let_def split: if_splits sum.splits)
next
  case (Inr normalized)
  consider "fmt = ''pcm''" | "fmt = ''wav''" | "fmt \<in> {''mp3'', ''opus'', ''flac''}"
    | "fmt \<notin> {''wav'', ''mp3'', ''opus'', ''flac'', ''pcm''}" by auto
  then show ?thesis
  proof cases
    case 1
    with assms Inr show ?thesis by (simp add: convert_audio_try_def)
  next
    case 2
    with assms Inr show ?thesis
      by (auto simp: convert_audio_try_def split: if_splits)
  next
    case 3
    from assms Inr show ?thesis
      unfolding convert_audio_try_codec [OF 3] by auto
  next
    case 4
    with assms Inr show ?thesis
      by (auto simp: convert_audio_try_def unsupported_message_def split: if_splits)
  qed
qed

subsection \<open>Errors of convert_audio\<close>

text \<open>
  C10. Every exception that leaves \<open>convert_audio\<close> is a \<open>ValueError\<close> whose message
  is \<open>Failed to convert audio to {format}: \<close> followed by the message of its cause,
  and the cause is a failure of normalization, a failure of one of the two writers,
  or the rejection of an unsupported format; none of them arrives unwrapped.
\<close>

theorem convert_audio_errors_wrapped:
  assumes "convert_audio env audio_data rate fmt is_first_chunk is_last_chunk normalizer fs stream
             = Inl e"
  shows "\<exists>cause. e = ValueError (''Failed to convert audio to '' @ fmt @ '': '' @ exc_msg cause)
     \<and> ((stream \<and> normalize (case normalizer of None \<Rightarrow> AudioNormalizer_init (config env)
                                 | Some n \<Rightarrow> n) audio_data is_last_chunk = Inl cause)
       \<or> (\<exists>samples keywords settings. sf_write env samples rate keywords settings = Inl cause)
       \<or> (\<exists>samples. wavfile_write env rate samples = Inl cause)
       \<or> (fmt \<notin> {''wav'', ''mp3'', ''opus'', ''flac'', ''pcm''}
            \<and> cause = ValueError (unsupported_message fmt)))"
proof -
  from assms obtain cause
    where cause: "convert_audio_try env audio_data rate fmt is_first_chunk is_last_chunk
                    normalizer fs stream = Inl cause"
      and e: "e = ValueError (''Failed to convert audio to '' @ fmt @ '': '' @ exc_msg cause)"
    by (auto simp: convert_audio_def split: sum.splits)
  from convert_audio_try_failure [OF cause] e show ?thesis by blast
qed

theorem convert_audio_errors_wrapped_witness:
  "convert_audio
      (stub_collaborators \<lparr> sf_write := (\<lambda>samples rate keywords settings.
          Inl (PyExc ''LibsndfileError'' ''Format not recognised.'')) \<rparr>)
      (Int16Array [1, 2]) 24000 ''flac'' True False None None False
     = Inl (ValueError ''Failed to convert audio to flac: Format not recognised.'')"
proof -
  let ?env = "stub_collaborators \<lparr> sf_write := (\<lambda>samples rate keywords settings.
          Inl (PyExc ''LibsndfileError'' ''Format not recognised.'')) \<rparr>"
  have run: "convert_audio ?env (Int16Array [1, 2]) 24000 ''flac'' True False None None False
     = Inl (ValueError ''Failed to convert audio to flac: Format not recognised.'')"
    by (simp add: convert_audio_def convert_audio_try_def normalized_audio_def
          merge_settings_def dict_getitem_def DEFAULT_SETTINGS_def)
  from convert_audio_errors_wrapped [OF run] run show ?thesis by simp
qed

lemma normalized_audio_returns:
  assumes "\<not> stream \<or> 0 < len_ndarray audio_data"
  shows "\<exists>normalized. normalized_audio env audio_data is_last_chunk normalizer stream
           = Inr normalized"
proof (cases stream)
  case False
  then show ?thesis by (simp add: normalized_audio_def)
next
  case True
  with assms have "0 < len_ndarray audio_data" by simp
  then have "astype_float32 audio_data \<noteq> []" using length_astype_float32 [of audio_data] by auto
  from peak_normalize_returns [OF this] obtain ys
    where "peak_normalize (astype_float32 audio_data) = Inr ys" ..
  from normalize_unfold [OF this] show ?thesis
    using True by (simp add: normalized_audio_def Let_def)
qed

subsection \<open>Unsupported formats\<close>

text \<open>
  C2 as stated fails: the rejection of \<open>aac\<close> does not reach the caller as it was
  raised: it is raised
  inside the \<open>try\<close> block, caught by \<open>except Exception\<close> and raised again inside
  another message.
\<close>

theorem unsupported_format_is_rewrapped:
  "convert_audio stub_collaborators (Int16Array [1, 2]) 24000 ''aac'' True False None None False
     = Inl (ValueError (''Failed to convert audio to aac: ''
              @ ''Format aac not supported. Supported formats are: wav, mp3, opus, flac, pcm.''))
   \<and> convert_audio stub_collaborators (Int16Array [1, 2]) 24000 ''aac'' True False None None False
     \<noteq> Inl (ValueError
              ''Format aac not supported. Supported formats are: wav, mp3, opus, flac, pcm.'')"
  by (simp add: convert_audio_def convert_audio_try_def normalized_audio_def ValueError_def)

text \<open>
  C2, amended. For \<open>aac\<close> and every tag outside wav, mp3, opus, flac and pcm, and
  every input on which normalization returns (streaming off, or a chunk with at
  least one sample), \<open>convert_audio\<close> fails with a \<open>ValueError\<close> whose message is
  \<open>Failed to convert audio to {format}: \<close> followed by the rejection, which names the
  requested format and lists the supported ones.
\<close>

theorem unsupported_format_rejected:
  assumes "fmt \<notin> {''wav'', ''mp3'', ''opus'', ''flac'', ''pcm''}"
    and "\<not> stream \<or> 0 < len_ndarray audio_data"
  shows "convert_audio env audio_data rate fmt is_first_chunk is_last_chunk normalizer fs stream
     = Inl (ValueError (''Failed to convert audio to '' @ fmt @ '': Format '' @ fmt
              @ '' not supported. Supported formats are: wav, mp3, opus, flac, pcm.''))"
proof -
  from normalized_audio_returns [OF assms(2)] obtain normalized
    where n: "normalized_audio env audio_data is_last_chunk normalizer stream = Inr normalized"
    by blast
  have "convert_audio_try env audio_data rate fmt is_first_chunk is_last_chunk normalizer fs stream
          = Inl (ValueError (unsupported_message fmt))"
    using assms(1) n by (auto simp: convert_audio_try_def unsupported_message_def)
  then show ?thesis
    by (simp add: convert_audio_def unsupported_message_def ValueError_def)
qed

theorem unsupported_format_rejected_witness:
  "convert_audio stub_collaborators (Float32Array [0, 1]) 24000 ''xyz'' True True None None True
     = Inl (ValueError (''Failed to convert audio to xyz: ''
              @ ''Format xyz not supported. Supported formats are: wav, mp3, opus, flac, pcm.''))"
proof -
  have fmt: "''xyz'' \<notin> {''wav'', ''mp3'', ''opus'', ''flac'', ''pcm''}" by simp
  have nonempty: "\<not> True \<or> 0 < len_ndarray (Float32Array [0, 1])" by simp
  from unsupported_format_rejected [OF fmt nonempty, of stub_collaborators 24000 True True None None]
  show ?thesis by simp
qed

lemma length_int16_bytes: "length (concat (map int16_tobytes samples)) = 2 * length samples"
  by (induction samples) (simp_all add: int16_tobytes_def)

lemma int16_split:
  "uint (w :: int16) = uint (ucast w :: byte) + 256 * uint (ucast (drop_bit 8 w) :: byte)"
proof -
  have lo: "uint (ucast w :: byte) = uint w mod 256"
    by (simp add: unsigned_ucast_eq take_bit_eq_mod)
  have bound: "uint w < 65536" using uint_bounded [of w] by simp
  have "uint (drop_bit 8 w) = uint w div 256"
    by (simp add: drop_bit_eq_div uint_div_distrib)
  moreover have "uint w div 256 mod 256 = uint w div 256"
  proof (rule mod_pos_pos_trivial)
    show "0 \<le> uint w div 256" by (simp add: pos_imp_zdiv_nonneg_iff)
    show "uint w div 256 < 256" using bound by linarith
  qed
  ultimately have hi: "uint (ucast (drop_bit 8 w) :: byte) = uint w div 256"
    by (simp add: unsigned_ucast_eq take_bit_eq_mod)
  show ?thesis unfolding lo hi by simp
qed

lemma int16_tobytes_little_endian:
  "int16_tobytes w = [lo, hi] \<Longrightarrow> uint w = uint lo + 256 * uint hi"
  using int16_split [of w] by (auto simp: int16_tobytes_def)

subsection \<open>The pcm format\<close>

text \<open>
  C8 as stated fails on the empty buffer. In streaming mode the empty int16 buffer is
  not converted: normalization raises
  and \<open>convert_audio\<close> raises in turn.
\<close>

theorem empty_pcm_stream_raises:
  "convert_audio stub_collaborators (Int16Array []) 24000 ''pcm'' True False None None True
     = Inl (ValueError (''Failed to convert audio to pcm: ''
         @ ''zero-size array to reduction operation maximum which has no identity''))"
  by (simp add: convert_audio_def convert_audio_try_def normalized_audio_def normalize_empty
        ValueError_def)

text \<open>
  C8, amended. With format \<open>pcm\<close> and streaming off, every int16 buffer is returned as
  its samples, two bytes each, low byte first, with nothing before or after. With
  streaming on, every int16 buffer with at least one sample is normalized and the
  normalized buffer is returned in the same way, \<open>2 * len(normalized)\<close> bytes.
\<close>

theorem pcm_is_raw_samples:
  "convert_audio env (Int16Array samples) rate ''pcm'' is_first_chunk is_last_chunk normalizer fs
       False = Inr (concat (map int16_tobytes samples))
   \<and> length (concat (map int16_tobytes samples)) = 2 * length samples
   \<and> (\<exists>lo hi. int16_tobytes w = [lo, hi] \<and> uint w = uint lo + 256 * uint hi)
   \<and> (samples \<noteq> [] \<longrightarrow>
        (\<exists>normalized.
            normalize (case normalizer of None \<Rightarrow> AudioNormalizer_init (config env)
                       | Some n \<Rightarrow> n) (Int16Array samples) is_last_chunk = Inr normalized
          \<and> convert_audio env (Int16Array samples) rate ''pcm'' is_first_chunk is_last_chunk
               normalizer fs True = Inr (concat (map int16_tobytes normalized))
          \<and> length (concat (map int16_tobytes normalized)) = 2 * length normalized))"
proof (intro conjI impI)
  show "convert_audio env (Int16Array samples) rate ''pcm'' is_first_chunk is_last_chunk
          normalizer fs False = Inr (concat (map int16_tobytes samples))"
    by (simp add: convert_audio_def convert_audio_try_def normalized_audio_def)
  show "length (concat (map int16_tobytes samples)) = 2 * length samples"
    by (rule length_int16_bytes)
  show "\<exists>lo hi. int16_tobytes w = [lo, hi] \<and> uint w = uint lo + 256 * uint hi"
    using int16_tobytes_little_endian [of w] by (simp add: int16_tobytes_def)
next
  let ?self = "case normalizer of None \<Rightarrow> AudioNormalizer_init (config env) | Some n \<Rightarrow> n"
  assume "samples \<noteq> []"
  then have "astype_float32 (Int16Array samples) \<noteq> []" by simp
  from peak_normalize_returns [OF this] obtain ys
    where "peak_normalize (astype_float32 (Int16Array samples)) = Inr ys" ..
  from normalize_unfold [OF this, of ?self is_last_chunk] obtain normalized
    where n: "normalize ?self (Int16Array samples) is_last_chunk = Inr normalized" by blast
  then have "convert_audio env (Int16Array samples) rate ''pcm'' is_first_chunk is_last_chunk
               normalizer fs True = Inr (concat (map int16_tobytes normalized))"
    by (simp add: convert_audio_def convert_audio_try_def normalized_audio_def Let_def)
  with n length_int16_bytes [of normalized]
  show "\<exists>normalized.
            normalize ?self (Int16Array samples) is_last_chunk = Inr normalized
          \<and> convert_audio env (Int16Array samples) rate ''pcm'' is_first_chunk is_last_chunk
               normalizer fs True = Inr (concat (map int16_tobytes normalized))
          \<and> length (concat (map int16_tobytes normalized)) = 2 * length normalized"
    by blast
qed

theorem pcm_is_raw_samples_witness:
  "convert_audio stub_collaborators (Int16Array [0, 3, - 3]) 24000 ''pcm'' True True None None
       False = Inr [0, 0, 3, 0, 253, 255]
   \<and> normalize (AudioNormalizer_init example_settings) (Int16Array [0, 3, - 3]) True
       = Inr [0, 32767, - 32767]
   \<and> convert_audio stub_collaborators (Int16Array [0, 3, - 3]) 24000 ''pcm'' True True None None
       True = Inr [0, 0, 255, 127, 1, 128]"
proof -
  have ne: "[0, 3, - 3 :: int16] \<noteq> []" by simp
  have run: "normalize (AudioNormalizer_init example_settings) (Int16Array [0, 3, - 3]) True
       = Inr [0, 32767, - 32767]"
    by (simp add: normalize_eval example_settings_def)
  from pcm_is_raw_samples [of stub_collaborators "[0, 3, - 3]" 24000 True True None None] ne run
  show ?thesis
    by (simp add: stub_collaborators_def int16_tobytes_def)
qed

end
